theory Spec2Isabelle
  imports Main "HOL-Library.Sublist" "HOL-Library.Multiset"
begin

section \<open>The screenshot server of \<open>src/index.js\<close>\<close>

text \<open>
  The \<open>take_screenshot\<close> handler builds the text of a PowerShell script from its
  arguments, runs it, and turns the outcome into a response. The embedding follows both
  layers: the JavaScript that prepares the injected values, and the script that acts on
  the desktop. The desktop is an explicit state; every window-manager or graphics call the
  script makes is appended to a log, so that "which calls were made, in which order" is a
  property of the result.

  What the embedding leaves out: the translation between WSL and Windows paths (lines
  199-220 and 437-442), the \<open>list_windows\<close> tool apart from its enumeration of the
  windows, and the failure of GDI+ object creation. Optional arguments are \<open>None\<close> when absent; a number argument is given by the
  integer numeral of the request, which JavaScript holds as the nearest double.

  A raw \<open>${...}\<close> interpolation puts the argument's text into the text of the script.
  Between single quotes, and between double quotes, the embedding follows the quote
  character: doubled, it stands for itself; alone, it ends the string early, and the
  script, which PowerShell parses as a whole before running any of it, does not parse.
  Every quote that is not doubled counts as such an early end: a text written so that
  what follows the early end is PowerShell source again (such as \<open>a' + 'b\<close>) is not
  followed, and neither are the dollar sign and the backtick inside double quotes, nor
  the output path.
\<close>

subsection \<open>Text operations\<close>

definition sq :: char where
  "sq = CHR 0x27"

definition lower_char :: "char \<Rightarrow> char" where
  "lower_char c =
     (case map_of (zip ''ABCDEFGHIJKLMNOPQRSTUVWXYZ'' ''abcdefghijklmnopqrstuvwxyz'') c of
        None \<Rightarrow> c
      | Some l \<Rightarrow> l)"

definition ToLower :: "string \<Rightarrow> string" where
  "ToLower s = map lower_char s"

text \<open>\<open>a.Contains(b)\<close> of .NET and \<open>a.includes(b)\<close> of JavaScript.\<close>

fun Contains :: "string \<Rightarrow> string \<Rightarrow> bool" where
  "Contains [] sub = (sub = [])"
| "Contains (c # cs) sub = (prefix sub (c # cs) \<or> Contains cs sub)"

text \<open>PowerShell's \<open>-eq\<close> and \<open>-ne\<close> on strings ignore case.\<close>

definition ps_eq :: "string \<Rightarrow> string \<Rightarrow> bool" where
  "ps_eq a b = (ToLower a = ToLower b)"

definition ps_ne :: "string \<Rightarrow> string \<Rightarrow> bool" where
  "ps_ne a b = (ToLower a \<noteq> ToLower b)"

text \<open>
  PowerShell's \<open>-like\<close>: the pattern's \<open>*\<close> stands for any run of characters and
  \<open>?\<close> for one character; other characters match themselves, ignoring case. Bracket
  expressions and the backtick escape are not modelled.
\<close>

fun ps_like :: "string \<Rightarrow> string \<Rightarrow> bool" where
  "ps_like s [] = (s = [])"
| "ps_like s (p # ps) =
     (if p = CHR ''*'' then
        (ps_like s ps \<or> (case s of [] \<Rightarrow> False | _ # t \<Rightarrow> ps_like t (p # ps)))
      else
        (case s of
           [] \<Rightarrow> False
         | c # t \<Rightarrow> (p = CHR ''?'' \<or> lower_char p = lower_char c) \<and> ps_like t ps))"

text \<open>\<open>s.Replace('.exe','')\<close>: every occurrence, left to right, case-sensitive.\<close>

fun Replace_exe :: "string \<Rightarrow> string" where
  "Replace_exe (a # b # c # d # rest) =
     (if [a, b, c, d] = ''.exe'' then Replace_exe rest
      else a # Replace_exe (b # c # d # rest))"
| "Replace_exe s = s"

subsection \<open>Numbers as text\<close>

definition digit_char :: "nat \<Rightarrow> char" where
  "digit_char d = ''0123456789'' ! d"

definition digit_val :: "char \<Rightarrow> nat option" where
  "digit_val c =
     map_of [(CHR ''0'', 0), (CHR ''1'', 1), (CHR ''2'', 2), (CHR ''3'', 3), (CHR ''4'', 4),
             (CHR ''5'', 5), (CHR ''6'', 6), (CHR ''7'', 7), (CHR ''8'', 8), (CHR ''9'', 9)] c"

definition hex_val :: "char \<Rightarrow> nat option" where
  "hex_val c =
     (case digit_val c of
        Some v \<Rightarrow> Some v
      | None \<Rightarrow>
          map_of [(CHR ''a'', 10), (CHR ''b'', 11), (CHR ''c'', 12), (CHR ''d'', 13),
                  (CHR ''e'', 14), (CHR ''f'', 15)] (lower_char c))"

fun string_of_nat :: "nat \<Rightarrow> string" where
  "string_of_nat n =
     (if n < 10 then [digit_char n]
      else string_of_nat (n div 10) @ [digit_char (n mod 10)])"

declare string_of_nat.simps [simp del]

text \<open>
  A JavaScript number is a double. Every natural number up to \<open>2 ^ 53\<close> is one; a larger
  one is rounded to 53 significant bits, a tie going to the even neighbour.
\<close>

fun bit_length :: "nat \<Rightarrow> nat" where
  "bit_length n = (if n = 0 then 0 else Suc (bit_length (n div 2)))"

declare bit_length.simps [simp del]

definition to_double :: "nat \<Rightarrow> nat" where
  "to_double n =
     (if n \<le> 2 ^ 53 then n
      else
        (let s = bit_length n - 53;
             q = n div 2 ^ s;
             r = n mod 2 ^ s;
             half = 2 ^ (s - 1)
         in (if half < r then q + 1
             else if r = half \<and> odd q then q + 1
             else q) * 2 ^ s))"

text \<open>
  \<open>Number::toString\<close> prints the fewest significant digits that read back as the same
  double, taking the nearer candidate when two have that many digits, and the even one
  when they are equally near. \<open>shortest v e\<close> looks for a multiple of \<open>10 ^ e\<close> that reads
  back as \<open>v\<close>, from the given \<open>e\<close> downwards.
\<close>

fun shortest :: "nat \<Rightarrow> nat \<Rightarrow> nat" where
  "shortest v 0 = v"
| "shortest v (Suc e) =
     (let p = 10 ^ Suc e;
          lo = (v div p) * p;
          hi = lo + p
      in if to_double lo = v \<and> to_double hi = v then
           (if v - lo < hi - v then lo
            else if hi - v < v - lo then hi
            else if even (v div p) then lo
            else hi)
         else if to_double lo = v then lo
         else if to_double hi = v then hi
         else shortest v e)"

definition strip_zeros :: "string \<Rightarrow> string" where
  "strip_zeros s = rev (dropWhile (\<lambda>c. c = CHR ''0'') (rev s))"

text \<open>A double above \<open>2 ^ 53\<close>: in full digits below \<open>10 ^ 21\<close>, with an exponent from
  there on, \<open>Infinity\<close> beyond the largest double.\<close>

definition js_large :: "nat \<Rightarrow> string" where
  "js_large v =
     (if 2 ^ 1024 \<le> v then ''Infinity''
      else
        (let m = shortest v (length (string_of_nat v) - 1);
             ds = string_of_nat m;
             e = string_of_nat (length ds - 1)
         in if m < 10 ^ 21 then ds
            else
              (case strip_zeros ds of
                 [] \<Rightarrow> ds
               | c # cs \<Rightarrow>
                   if cs = [] then c # ''e+'' @ e else c # CHR ''.'' # cs @ ''e+'' @ e)))"

definition js_String_nat :: "nat \<Rightarrow> string" where
  "js_String_nat n = (if n \<le> 2 ^ 53 then string_of_nat n else js_large (to_double n))"

text \<open>\<open>`${k}`\<close> for the number that the integer numeral \<open>k\<close> of a request becomes.\<close>

definition js_String_int :: "int \<Rightarrow> string" where
  "js_String_int k =
     (if k < 0 then CHR ''-'' # js_String_nat (nat (- k)) else js_String_nat (nat k))"

text \<open>The value of a run of digits in the given base, read left to right.\<close>

fun digits_value :: "(char \<Rightarrow> nat option) \<Rightarrow> nat \<Rightarrow> nat \<Rightarrow> string \<Rightarrow> nat option" where
  "digits_value val base acc [] = Some acc"
| "digits_value val base acc (c # cs) =
     (case val c of
        None \<Rightarrow> None
      | Some v \<Rightarrow> digits_value val base (base * acc + v) cs)"

text \<open>The regular expression \<open>^\d+$\<close>.\<close>

definition all_digits :: "string \<Rightarrow> bool" where
  "all_digits s = (s \<noteq> [] \<and> list_all (\<lambda>c. digit_val c \<noteq> None) s)"

text \<open>
  The value of a decimal numeral with an optional minus sign; \<open>None\<close> for another text.
  \<open>[int]'text'\<close> and \<open>[int64]'text'\<close> convert such a numeral when its value is in the
  32-bit or the 64-bit range and raise otherwise. The other spellings PowerShell converts
  (surrounding blanks, a plus sign, an exponent) are not modelled.
\<close>

definition ps_int :: "string \<Rightarrow> int option" where
  "ps_int s =
     (case s of
        [] \<Rightarrow> None
      | c # cs \<Rightarrow>
          if c = CHR ''-'' then
            (if cs = [] then None
             else map_option (\<lambda>n. - int n) (digits_value digit_val 10 0 cs))
          else map_option int (digits_value digit_val 10 0 s))"

definition ps_int32 :: "string \<Rightarrow> int option" where
  "ps_int32 s =
     (case ps_int s of
        None \<Rightarrow> None
      | Some v \<Rightarrow> if - (2 ^ 31) \<le> v \<and> v < 2 ^ 31 then Some v else None)"

definition ps_int64 :: "string \<Rightarrow> int option" where
  "ps_int64 s =
     (case ps_int s of
        None \<Rightarrow> None
      | Some v \<Rightarrow> if - (2 ^ 63) \<le> v \<and> v < 2 ^ 63 then Some v else None)"

text \<open>\<open>[Convert]::ToInt64(h, 16)\<close>: an optional \<open>0x\<close> prefix, then hexadecimal digits
  read as a 64-bit two's complement value.\<close>

definition Convert_ToInt64_16 :: "string \<Rightarrow> int option" where
  "Convert_ToInt64_16 h =
     (let body = (if ps_like h ''0x*'' then drop 2 h else h) in
      if body = [] then None
      else
        (case digits_value hex_val 16 0 body of
           None \<Rightarrow> None
         | Some n \<Rightarrow>
             if n < 2 ^ 63 then Some (int n)
             else if n < 2 ^ 64 then Some (int n - 2 ^ 64)
             else None))"

subsection \<open>JavaScript values and the literals injected into the script\<close>

text \<open>An optional argument is \<open>None\<close> when the request leaves it out
  (\<open>undefined\<close>).\<close>

definition interp :: "string option \<Rightarrow> string" where
  "interp v = (case v of None \<Rightarrow> ''undefined'' | Some s \<Rightarrow> s)"

definition interp_num :: "int option \<Rightarrow> string" where
  "interp_num v = (case v of None \<Rightarrow> ''undefined'' | Some k \<Rightarrow> js_String_int k)"

definition truthy_text :: "string option \<Rightarrow> bool" where
  "truthy_text v = (case v of None \<Rightarrow> False | Some s \<Rightarrow> s \<noteq> [])"

definition truthy_num :: "int option \<Rightarrow> bool" where
  "truthy_num v = (case v of None \<Rightarrow> False | Some k \<Rightarrow> k \<noteq> 0)"

definition or_false :: "bool option \<Rightarrow> bool" where
  "or_false v = (case v of None \<Rightarrow> False | Some b \<Rightarrow> b)"

text \<open>\<open>escPS = (s) => String(s ?? '').replace(/'/g, "''")\<close>\<close>

definition escPS :: "string option \<Rightarrow> string" where
  "escPS v =
     (case v of
        None \<Rightarrow> []
      | Some s \<Rightarrow> concat (map (\<lambda>c. if c = sq then [sq, sq] else [c]) s))"

definition quoted :: "string \<Rightarrow> string" where
  "quoted body = sq # body @ [sq]"

text \<open>The source text of each injected fragment (lines 230-234).\<close>

definition psFilter :: "string option \<Rightarrow> string" where
  "psFilter flt = quoted (escPS flt)"

definition psWindowTitle :: "string option \<Rightarrow> string" where
  "psWindowTitle windowTitle = quoted (escPS windowTitle)"

definition psProcessName :: "string option \<Rightarrow> string" where
  "psProcessName processName = quoted (escPS processName)"

definition psAllowFocus :: "bool \<Rightarrow> string" where
  "psAllowFocus allowFocus = (if allowFocus then quoted ''$true'' else quoted ''$false'')"

definition psRestore :: "bool \<Rightarrow> string" where
  "psRestore restoreIfMinimized =
     (if restoreIfMinimized then quoted ''$true'' else quoted ''$false'')"

text \<open>
  What PowerShell makes of such a fragment on the right of \<open>$x = ...\<close>. The variables
  \<open>$true\<close> and \<open>$false\<close> are the Booleans; a text between single quotes is a string
  taken verbatim, with \<open>''\<close> standing for one quote and no variable expanded.
\<close>

datatype ps_value = PS_Bool bool | PS_String string

definition dq :: char where
  "dq = CHR 0x22"

text \<open>The content of a string written between quotes \<open>q\<close>: a doubled \<open>q\<close> stands for
  one. \<open>quotes_paired q s\<close> says that every \<open>q\<close> in \<open>s\<close> is doubled, so that \<open>s\<close>
  written between quotes is one string and nothing more.\<close>

fun unescape :: "char \<Rightarrow> string \<Rightarrow> string" where
  "unescape q (a # b # rest) =
     (if a = q \<and> b = q then q # unescape q rest else a # unescape q (b # rest))"
| "unescape q s = s"

fun quotes_paired :: "char \<Rightarrow> string \<Rightarrow> bool" where
  "quotes_paired q [] = True"
| "quotes_paired q [a] = (a \<noteq> q)"
| "quotes_paired q (a # b # rest) =
     (if a = q then b = q \<and> quotes_paired q rest else quotes_paired q (b # rest))"

definition ps_literal :: "string \<Rightarrow> ps_value" where
  "ps_literal src =
     (if src = ''$true'' then PS_Bool True
      else if src = ''$false'' then PS_Bool False
      else PS_String (unescape sq (butlast (tl src))))"

text \<open>A value used as a condition: a string counts as true unless it is empty.\<close>

fun ps_truthy :: "ps_value \<Rightarrow> bool" where
  "ps_truthy (PS_Bool b) = b"
| "ps_truthy (PS_String s) = (s \<noteq> [])"

text \<open>A value expanded inside a double-quoted string, or used as a string.\<close>

fun ps_text :: "ps_value \<Rightarrow> string" where
  "ps_text (PS_String s) = s"
| "ps_text (PS_Bool b) = (if b then ''True'' else ''False'')"

subsection \<open>The desktop\<close>

record RECT =
  Left :: int
  Top :: int
  Right :: int
  Bottom :: int

record Rectangle =
  X :: int
  Y :: int
  Width :: int
  Height :: int

record Screen =
  Bounds :: Rectangle
  Primary :: bool

text \<open>A top-level window as \<open>EnumWindows\<close> and the queries of the callback report it;
  \<open>ProcessName\<close> is \<open>None\<close> when \<open>Get-Process\<close> fails.\<close>

record top_window =
  hWnd :: int
  IsWindowVisible :: bool
  WindowText :: string
  ProcessId :: nat
  ProcessName :: "string option"

text \<open>The calls that act on the desktop or draw, as the log records them. A bitmap
  operation carries the bitmap's width and height.\<close>

datatype os_call =
    Call_ShowWindowAsync int int
  | Call_SetForegroundWindow int
  | Call_PrintWindow int int int
  | Call_CopyFromScreen int int int int
  | Call_Save int int

record desktop =
  EnumWindows :: "top_window list"
  minimized :: "int \<Rightarrow> bool"
  window_rect :: "int \<Rightarrow> RECT option"
  foreground :: int
  PrintWindow_result :: "int \<Rightarrow> bool"
  restore_latency :: "nat option"
  pending_restore :: "(int \<times> nat) option"
  obeys_minimize :: bool
  obeys_foreground :: bool
  AllScreens :: "Screen list"
  VirtualScreen :: Rectangle
  mkdir_succeeds :: bool
  stderr_noise :: string
  output_file :: bool
  calls :: "os_call list"

text \<open>
  \<open>restore_latency\<close> is the time in milliseconds after which a restore request takes
  effect (\<open>None\<close>: never); \<open>obeys_minimize\<close> and \<open>obeys_foreground\<close> say whether the
  window manager carries out a minimize or a focus request. \<open>stderr_noise\<close> is what a
  script that runs to its end leaves on the error stream, \<open>output_file\<close> whether the
  expected file is there, \<open>mkdir_succeeds\<close> whether the destination directory can be
  created.
\<close>

definition SW_RESTORE :: int where
  "SW_RESTORE = 9"

definition SW_MINIMIZE :: int where
  "SW_MINIMIZE = 6"

definition record_call :: "os_call \<Rightarrow> desktop \<Rightarrow> desktop" where
  "record_call c d = d\<lparr>calls := calls d @ [c]\<rparr>"

definition IsIconic :: "desktop \<Rightarrow> int \<Rightarrow> bool" where
  "IsIconic d h = minimized d h"

definition GetForegroundWindow :: "desktop \<Rightarrow> int" where
  "GetForegroundWindow d = foreground d"

text \<open>\<open>GetWindowRect\<close> leaves the fresh, all-zero \<open>RECT\<close> untouched when it fails.\<close>

definition GetWindowRect :: "desktop \<Rightarrow> int \<Rightarrow> RECT" where
  "GetWindowRect d h =
     (case window_rect d h of
        None \<Rightarrow> \<lparr>Left = 0, Top = 0, Right = 0, Bottom = 0\<rparr>
      | Some rc \<Rightarrow> rc)"

text \<open>A restore that takes effect activates and displays the window. A minimize request
  that is obeyed minimizes it; which window the focus passes to then is not modelled.\<close>

definition complete_restore :: "int \<Rightarrow> desktop \<Rightarrow> desktop" where
  "complete_restore h d =
     d\<lparr>minimized := (minimized d)(h := False), foreground := h, pending_restore := None\<rparr>"

definition ShowWindowAsync :: "int \<Rightarrow> int \<Rightarrow> desktop \<Rightarrow> desktop" where
  "ShowWindowAsync h nCmdShow d =
     (let d' = record_call (Call_ShowWindowAsync h nCmdShow) d in
      if nCmdShow = SW_RESTORE then
        (case restore_latency d' of
           None \<Rightarrow> d'
         | Some t \<Rightarrow> if t = 0 then complete_restore h d' else d'\<lparr>pending_restore := Some (h, t)\<rparr>)
      else if nCmdShow = SW_MINIMIZE then
        (if obeys_minimize d'
         then d'\<lparr>minimized := (minimized d')(h := True), pending_restore := None\<rparr>
         else d')
      else d')"

definition Start_Sleep :: "nat \<Rightarrow> desktop \<Rightarrow> desktop" where
  "Start_Sleep ms d =
     (case pending_restore d of
        None \<Rightarrow> d
      | Some (h, t) \<Rightarrow>
          if t \<le> ms then complete_restore h d else d\<lparr>pending_restore := Some (h, t - ms)\<rparr>)"

definition SetForegroundWindow :: "int \<Rightarrow> desktop \<Rightarrow> desktop" where
  "SetForegroundWindow h d =
     (let d' = record_call (Call_SetForegroundWindow h) d in
      if obeys_foreground d' then d'\<lparr>foreground := h\<rparr> else d')"

text \<open>\<open>$bmp.Save(path, Png)\<close> writes the file the handler looks for afterwards.\<close>

definition Save :: "int \<Rightarrow> int \<Rightarrow> desktop \<Rightarrow> desktop" where
  "Save w h d = (record_call (Call_Save w h) d)\<lparr>output_file := True\<rparr>"

subsection \<open>Window enumeration (\<open>Get-WindowsList\<close>, lines 273-296)\<close>

record window_entry =
  Handle :: int
  Title :: string
  PID :: nat
  Process :: string

definition filter_accepts :: "string \<Rightarrow> string \<Rightarrow> string \<Rightarrow> bool" where
  "filter_accepts flt title proc =
     (flt = [] \<or> Contains (ToLower title) (ToLower flt) \<or> Contains (ToLower proc) (ToLower flt))"

text \<open>
  One call of the callback of \<open>Get-WindowsList\<close> (lines 275-293). The script block runs
  as a delegate, in a scope of its own: \<open>$arr += $obj\<close> reads the \<open>$arr\<close> of the
  function and assigns the sum to a variable \<open>$arr\<close> of the callback's scope, which ends
  with the call. \<open>callback_arr flt arr w\<close> is that variable at the end of the call.
\<close>

definition callback_arr :: "string \<Rightarrow> window_entry list \<Rightarrow> top_window \<Rightarrow> window_entry list" where
  "callback_arr flt arr w =
     (let title = WindowText w;
          proc = (case ProcessName w of None \<Rightarrow> [] | Some n \<Rightarrow> n)
      in if IsWindowVisible w \<and> 0 < length title \<and> filter_accepts flt title proc
         then arr @ [\<lparr>Handle = hWnd w, Title = title, PID = ProcessId w, Process = proc\<rparr>]
         else arr)"

text \<open>The function creates \<open>$arr = @()\<close>, lets \<open>EnumWindows\<close> call the callback on
  every window, and returns its own \<open>$arr\<close>, which no call has changed.\<close>

definition Get_WindowsList :: "desktop \<Rightarrow> string \<Rightarrow> window_entry list" where
  "Get_WindowsList d flt =
     (let arr = [];
          locals = map (callback_arr flt arr) (EnumWindows d)
      in arr)"

text \<open>
  The enumeration of the \<open>list_windows\<close> tool (lines 139-162), whose numbers
  \<open>windowNumber\<close> refers to. Its callback calls \<open>$results.Add($line)\<close> on the one list
  object, so the windows are collected, in the order reported. (The tool prints the
  handle in hexadecimal and the state beside these fields.)
\<close>

definition list_windows_callback :: "string \<Rightarrow> window_entry list \<Rightarrow> top_window \<Rightarrow> window_entry list" where
  "list_windows_callback flt results w =
     (let title = WindowText w;
          proc = (case ProcessName w of None \<Rightarrow> [] | Some n \<Rightarrow> n)
      in if IsWindowVisible w \<and> 0 < length title \<and> filter_accepts flt title proc
         then results @ [\<lparr>Handle = hWnd w, Title = title, PID = ProcessId w, Process = proc\<rparr>]
         else results)"

definition list_windows_results :: "desktop \<Rightarrow> string \<Rightarrow> window_entry list" where
  "list_windows_results d flt = foldl (list_windows_callback flt) [] (EnumWindows d)"

subsection \<open>Resolving the target window (lines 298-323)\<close>

datatype ps_error =
    Invalid_windowNumber string nat
  | No_window_with_title string
  | No_window_for_process string
  | No_target_window_resolved
  | Target_window_is_minimized
  | Background_capture_invalid
  | Monitor_not_found string nat
  | Invalid_monitor_parameter string
  | Script_does_not_parse

text \<open>
  \<open>Script_does_not_parse\<close> is the parser's refusal of the script, of which nothing then
  runs. Each other constructor stands for one \<open>throw\<close> of the scripts:
  \<^item> \<open>Invalid_windowNumber k n\<close>: "Invalid windowNumber: k. Available: 1..n";
  \<^item> \<open>No_window_with_title t\<close>: "No window found with title containing: t";
  \<^item> \<open>No_window_for_process p\<close>: "No window found for process: p";
  \<^item> \<open>No_target_window_resolved\<close>: "No target window resolved";
  \<^item> \<open>Target_window_is_minimized\<close>: "Target window is minimized. Set
    restoreIfMinimized: true to capture.";
  \<^item> \<open>Background_capture_invalid\<close>: "Background capture produced an invalid image for
    this app. Retry with allowFocus: true.";
  \<^item> \<open>Monitor_not_found m n\<close>: "Monitor m not found. Available monitors: 1 to n";
  \<^item> \<open>Invalid_monitor_parameter m\<close>: "Invalid monitor parameter: m".
\<close>

text \<open>Lines 302-304. A text that does not convert leaves \<open>$target\<close> at zero.\<close>

definition by_handle :: "string \<Rightarrow> ps_error + int" where
  "by_handle h =
     (case (if ps_like h ''0x*'' then Convert_ToInt64_16 h else ps_int64 h) of
        None \<Rightarrow> Inr 0
      | Some hVal \<Rightarrow> Inr hVal)"

text \<open>Lines 306-309, with the text of \<open>'${windowNumber}'\<close> and the text it has in the
  message. When the conversion raises, \<open>$idx\<close> stays null, which PowerShell compares as
  less than zero.\<close>

definition by_number :: "window_entry list \<Rightarrow> string \<Rightarrow> string \<Rightarrow> ps_error + int" where
  "by_number list windowNumber shown =
     (case ps_int32 windowNumber of
        None \<Rightarrow> Inl (Invalid_windowNumber shown (length list))
      | Some k \<Rightarrow>
          (let idx = k - 1 in
           if idx < 0 \<or> int (length list) \<le> idx
           then Inl (Invalid_windowNumber shown (length list))
           else Inr (Handle (list ! nat idx))))"

text \<open>Lines 311-314: \<open>Where-Object { $_.Title -like "*$psWindowTitle*" } |
  Select-Object -First 1\<close>.\<close>

definition by_title :: "window_entry list \<Rightarrow> string \<Rightarrow> ps_value \<Rightarrow> ps_error + int" where
  "by_title list windowTitle psWindowTitle_value =
     (case find (\<lambda>w. ps_like (Title w) (''*'' @ ps_text psWindowTitle_value @ ''*'')) list of
        None \<Rightarrow> Inl (No_window_with_title windowTitle)
      | Some m \<Rightarrow> Inr (Handle m))"

text \<open>Lines 316-320.\<close>

definition by_process :: "window_entry list \<Rightarrow> string \<Rightarrow> ps_value \<Rightarrow> ps_error + int" where
  "by_process list processName psProcessName_value =
     (let search = Replace_exe (ps_text psProcessName_value) in
      case find (\<lambda>w. ps_like (Process w) (''*'' @ search @ ''*'')) list of
        None \<Rightarrow> Inl (No_window_for_process processName)
      | Some m \<Rightarrow> Inr (Handle m))"

text \<open>The arguments of the window script: the four raw interpolations
  \<open>'${windowHandleArg}'\<close>, \<open>'${windowNumber}'\<close>, \<open>'${windowTitle}'\<close>,
  \<open>'${processName}'\<close>, and the source text of the five injected variables.\<close>

record script_args =
  raw_windowHandleArg :: string
  raw_windowNumber :: string
  raw_windowTitle :: string
  raw_processName :: string
  src_psAllowFocus :: string
  src_psRestore :: string
  src_psFilter :: string
  src_psWindowTitle :: string
  src_psProcessName :: string

text \<open>The texts of the four selectors between single quotes, as the tests of lines 301,
  305, 310 and 315 and the conversions read them, and between double quotes, as the
  messages of lines 308, 313 and 319 show them.\<close>

definition handle_given :: "script_args \<Rightarrow> bool" where
  "handle_given a =
     (ps_ne (unescape sq (raw_windowHandleArg a)) [] \<and>
      ps_ne (unescape sq (raw_windowHandleArg a)) ''undefined'')"

definition number_given :: "script_args \<Rightarrow> bool" where
  "number_given a =
     (ps_ne (unescape sq (raw_windowNumber a)) [] \<and>
      ps_ne (unescape sq (raw_windowNumber a)) ''undefined'')"

definition title_given :: "script_args \<Rightarrow> bool" where
  "title_given a = ps_ne (unescape sq (raw_windowTitle a)) []"

definition process_given :: "script_args \<Rightarrow> bool" where
  "process_given a = ps_ne (unescape sq (raw_processName a)) []"

definition resolve_target :: "desktop \<Rightarrow> script_args \<Rightarrow> ps_error + int" where
  "resolve_target d a =
     (let flt = ps_text (ps_literal (src_psFilter a)) in
      if handle_given a then by_handle (unescape sq (raw_windowHandleArg a))
      else if number_given a then
        by_number (Get_WindowsList d flt) (unescape sq (raw_windowNumber a))
          (unescape dq (raw_windowNumber a))
      else if title_given a then
        by_title (Get_WindowsList d flt) (unescape dq (raw_windowTitle a))
          (ps_literal (src_psWindowTitle a))
      else if process_given a then
        by_process (Get_WindowsList d flt) (unescape dq (raw_processName a))
          (ps_literal (src_psProcessName a))
      else Inr 0)"

text \<open>The window script parses when each raw text is one string where it stands: between
  single quotes on lines 301-315, between double quotes on lines 308, 313 and 319.\<close>

definition window_script_parses :: "script_args \<Rightarrow> bool" where
  "window_script_parses a =
     (quotes_paired sq (raw_windowHandleArg a) \<and> quotes_paired sq (raw_windowNumber a) \<and>
      quotes_paired sq (raw_windowTitle a) \<and> quotes_paired sq (raw_processName a) \<and>
      quotes_paired dq (raw_windowNumber a) \<and> quotes_paired dq (raw_windowTitle a) \<and>
      quotes_paired dq (raw_processName a))"

subsection \<open>Capturing the resolved window (lines 325-378)\<close>

text \<open>The loop of lines 333-336: at most \<open>n\<close> rounds, each leaving the loop when the
  window is no longer minimized and sleeping 50 ms otherwise. The script runs it with
  \<open>n = 40\<close>.\<close>

fun restore_poll :: "nat \<Rightarrow> int \<Rightarrow> desktop \<Rightarrow> desktop" where
  "restore_poll 0 target d = d"
| "restore_poll (Suc n) target d =
     (if \<not> IsIconic d target then d else restore_poll n target (Start_Sleep 50 d))"

definition pad :: int where
  "pad = 10"

definition bounds_left :: "RECT \<Rightarrow> int" where
  "bounds_left rc = max 0 (Left rc - pad)"

definition bounds_top :: "RECT \<Rightarrow> int" where
  "bounds_top rc = max 0 (Top rc - pad)"

definition bounds_width :: "RECT \<Rightarrow> int" where
  "bounds_width rc = (Right rc + pad) - bounds_left rc"

definition bounds_height :: "RECT \<Rightarrow> int" where
  "bounds_height rc = (Bottom rc + pad) - bounds_top rc"

text \<open>Lines 376-378.\<close>

definition restore_original :: "bool \<Rightarrow> int \<Rightarrow> int \<Rightarrow> desktop \<Rightarrow> desktop" where
  "restore_original wasMinimized prevForeground target d =
     (let d1 = (if wasMinimized then ShowWindowAsync target SW_MINIMIZE d else d) in
      if prevForeground \<noteq> 0 then SetForegroundWindow prevForeground d1 else d1)"

text \<open>A script ends with the text it wrote, or with the error it threw; either way the
  desktop is the one it leaves behind.\<close>

type_synonym script_result = "(ps_error + string) \<times> desktop"

definition capture_window :: "ps_value \<Rightarrow> ps_value \<Rightarrow> int \<Rightarrow> desktop \<Rightarrow> script_result" where
  "capture_window allow restore target d =
     (let wasMinimized = IsIconic d target in
      if wasMinimized \<and> \<not> ps_truthy restore then (Inl Target_window_is_minimized, d)
      else
        (let prevForeground = GetForegroundWindow d;
             d1 = (if ps_truthy restore \<and> wasMinimized
                   then restore_poll 40 target (ShowWindowAsync target SW_RESTORE d)
                   else d);
             rc = GetWindowRect d1 target;
             pwOk = PrintWindow_result d1 target;
             d2 = record_call (Call_PrintWindow target (bounds_width rc) (bounds_height rc)) d1
         in if \<not> pwOk then
              (if ps_truthy allow then
                 (let d3 = Start_Sleep 200 (SetForegroundWindow target d2);
                      d4 = record_call
                             (Call_CopyFromScreen (bounds_left rc) (bounds_top rc)
                                (bounds_width rc) (bounds_height rc)) d3;
                      d5 = Save (bounds_width rc) (bounds_height rc) d4
                  in (Inr ''Window screenshot saved successfully (foreground fallback)'',
                      restore_original wasMinimized prevForeground target d5))
               else (Inl Background_capture_invalid, d2))
            else
              (Inr ''Window screenshot saved successfully (background)'',
               restore_original wasMinimized prevForeground target
                 (Save (bounds_width rc) (bounds_height rc) d2))))"

definition window_script :: "script_args \<Rightarrow> desktop \<Rightarrow> script_result" where
  "window_script a d =
     (if window_script_parses a then
        (case resolve_target d a of
           Inl e \<Rightarrow> (Inl e, d)
         | Inr target \<Rightarrow>
             if target = 0 then (Inl No_target_window_resolved, d)
             else capture_window (ps_literal (src_psAllowFocus a)) (ps_literal (src_psRestore a))
                    target d)
      else (Inl Script_does_not_parse, d))"

subsection \<open>The monitor scripts (lines 380-416)\<close>

definition capture_region :: "Rectangle \<Rightarrow> desktop \<Rightarrow> desktop" where
  "capture_region b d =
     Save (Width b) (Height b)
       (record_call (Call_CopyFromScreen (X b) (Y b) (Width b) (Height b)) d)"

definition all_monitors_script :: "desktop \<Rightarrow> script_result" where
  "all_monitors_script d =
     (Inr ''Screenshot saved successfully'', capture_region (VirtualScreen d) d)"

definition PrimaryScreen :: "desktop \<Rightarrow> Screen option" where
  "PrimaryScreen d = find Primary (AllScreens d)"

text \<open>Lines 404-406, with the text of \<open>'${monitor}'\<close> and the text it has in the
  messages; \<open>Inr None\<close> is a \<open>$target\<close> left unset. \<open>Sort-Object\<close> is taken to keep the
  reported order of monitors with equal horizontal origin. When the conversion raises,
  \<open>$i\<close> stays null, which PowerShell compares as less than zero.\<close>

definition monitor_target :: "string \<Rightarrow> string \<Rightarrow> desktop \<Rightarrow> ps_error + Screen option" where
  "monitor_target monitor shown d =
     (let screens = sort_key (\<lambda>s. X (Bounds s)) (AllScreens d) in
      if ps_eq monitor ''primary'' then Inr (PrimaryScreen d)
      else if all_digits monitor then
        (case ps_int32 monitor of
           None \<Rightarrow> Inl (Monitor_not_found shown (length screens))
         | Some n \<Rightarrow>
             (let i = n - 1 in
              if 0 \<le> i \<and> i < int (length screens) then Inr (Some (screens ! nat i))
              else Inl (Monitor_not_found shown (length screens))))
      else Inr None)"

text \<open>The monitor script parses when the raw text is one string between single quotes
  (lines 405, 406) and between double quotes (lines 406, 407, 414).\<close>

definition monitor_script_parses :: "string \<Rightarrow> bool" where
  "monitor_script_parses monitor = (quotes_paired sq monitor \<and> quotes_paired dq monitor)"

definition monitor_script :: "string \<Rightarrow> desktop \<Rightarrow> script_result" where
  "monitor_script monitor d =
     (if monitor_script_parses monitor then
        (case monitor_target (unescape sq monitor) (unescape dq monitor) d of
           Inl e \<Rightarrow> (Inl e, d)
         | Inr None \<Rightarrow> (Inl (Invalid_monitor_parameter (unescape dq monitor)), d)
         | Inr (Some target) \<Rightarrow>
             (Inr (''Screenshot of monitor '' @ unescape dq monitor @ '' saved successfully''),
              capture_region (Bounds target) d))
      else (Inl Script_does_not_parse, d))"

subsection \<open>The request handler (lines 186-452)\<close>

datatype js_monitor = Monitor_text string | Monitor_number int

record request =
  filename :: "string option"
  monitor :: "js_monitor option"
  windowTitle :: "string option"
  processName :: "string option"
  windowNumber :: "int option"
  windowHandle :: "string option"
  filter_arg :: "string option"
  allowFocus :: "bool option"
  restoreIfMinimized :: "bool option"
  folder :: "string option"

text \<open>Line 188: \<open>monitor || 'all'\<close>. The empty text and the number zero are falsy.\<close>

definition monitor_or_all :: "js_monitor option \<Rightarrow> js_monitor" where
  "monitor_or_all m =
     (case m of
        None \<Rightarrow> Monitor_text ''all''
      | Some (Monitor_text s) \<Rightarrow> if s = [] then Monitor_text ''all'' else Monitor_text s
      | Some (Monitor_number k) \<Rightarrow> if k = 0 then Monitor_text ''all'' else Monitor_number k)"

fun interp_monitor :: "js_monitor \<Rightarrow> string" where
  "interp_monitor (Monitor_text s) = s"
| "interp_monitor (Monitor_number k) = js_String_int k"

text \<open>Line 227: \<open>windowTitle || processName || windowNumber || windowHandleArg\<close>.\<close>

definition window_branch :: "request \<Rightarrow> bool" where
  "window_branch r =
     (truthy_text (windowTitle r) \<or> truthy_text (processName r) \<or>
      truthy_num (windowNumber r) \<or> truthy_text (windowHandle r))"

definition script_args_of :: "request \<Rightarrow> script_args" where
  "script_args_of r =
     \<lparr>raw_windowHandleArg = interp (windowHandle r),
      raw_windowNumber = interp_num (windowNumber r),
      raw_windowTitle = interp (windowTitle r),
      raw_processName = interp (processName r),
      src_psAllowFocus = psAllowFocus (or_false (allowFocus r)),
      src_psRestore = psRestore (or_false (restoreIfMinimized r)),
      src_psFilter = psFilter (filter_arg r),
      src_psWindowTitle = psWindowTitle (windowTitle r),
      src_psProcessName = psProcessName (processName r)\<rparr>"

datatype script = Window_script script_args | All_monitors_script | Monitor_script string

definition psScript :: "request \<Rightarrow> script" where
  "psScript r =
     (if window_branch r then Window_script (script_args_of r)
      else if monitor_or_all (monitor r) = Monitor_text ''all'' then All_monitors_script
      else Monitor_script (interp_monitor (monitor_or_all (monitor r))))"

fun powershell :: "script \<Rightarrow> desktop \<Rightarrow> script_result" where
  "powershell (Window_script a) d = window_script a d"
| "powershell All_monitors_script d = all_monitors_script d"
| "powershell (Monitor_script m) d = monitor_script m d"

text \<open>Lines 421-429.\<close>

definition hasRealError :: "string \<Rightarrow> bool" where
  "hasRealError stderr =
     (stderr \<noteq> [] \<and>
      (Contains stderr ''throw'' \<or>
       Contains stderr ''Exception'' \<or>
       Contains (ToLower stderr) ''methodnotfound'' \<or>
       Contains (ToLower stderr) (''does not contain a method named '' @ [sq] @ ''printwindow'' @ [sq]) \<or>
       Contains (ToLower stderr) ''does not contain a method named'' \<or>
       Contains stderr ''not found'' \<or>
       (Contains stderr ''Error'' \<and> \<not> Contains stderr ''ErrorId'')))"

datatype failure = Script_threw ps_error | Error_stream string | Output_file_missing

text \<open>What the handler hands back: \<open>Saved\<close> is the payload "Screenshot saved
  successfully to: ..."; \<open>Failed f\<close> is the payload "Failed to take screenshot: ..." with
  \<open>isError: true\<close>. \<open>Rejected\<close> is the handler's promise rejecting: an exception that
  no \<open>catch\<close> of the handler took.\<close>

datatype response = Saved | Failed failure

datatype outcome = Returned response | Rejected

fun isError :: "response \<Rightarrow> bool" where
  "isError Saved = False"
| "isError (Failed f) = True"

text \<open>
  Line 222 creates the directory before the \<open>try\<close> of line 224 opens. Inside the
  \<open>try\<close>: a script that throws, or does not parse, makes \<open>powershell.exe\<close> exit with
  an error, which rejects \<open>execAsync\<close>; a script that ends normally is judged by its error stream, and
  then by the presence of the file (\<open>fs.access\<close>).
\<close>

definition take_screenshot :: "request \<Rightarrow> desktop \<Rightarrow> outcome \<times> desktop" where
  "take_screenshot r d =
     (if \<not> mkdir_succeeds d then (Rejected, d)
      else
        (case powershell (psScript r) d of
           (Inl e, d') \<Rightarrow> (Returned (Failed (Script_threw e)), d')
         | (Inr stdout, d') \<Rightarrow>
             if hasRealError (stderr_noise d')
             then (Returned (Failed (Error_stream (stderr_noise d'))), d')
             else if \<not> output_file d' then (Returned (Failed Output_file_missing), d')
             else (Returned Saved, d')))"

subsection \<open>The calls each stage is expected to log\<close>

definition restoration_calls :: "bool \<Rightarrow> int \<Rightarrow> int \<Rightarrow> os_call list" where
  "restoration_calls wasMinimized prevForeground target =
     (if wasMinimized then [Call_ShowWindowAsync target SW_MINIMIZE] else []) @
     (if prevForeground \<noteq> 0 then [Call_SetForegroundWindow prevForeground] else [])"

definition capture_calls :: "bool \<Rightarrow> bool \<Rightarrow> int \<Rightarrow> RECT \<Rightarrow> os_call list" where
  "capture_calls pwOk allow target rc =
     Call_PrintWindow target (bounds_width rc) (bounds_height rc) #
     (if pwOk then [Call_Save (bounds_width rc) (bounds_height rc)]
      else if allow then
        [Call_SetForegroundWindow target,
         Call_CopyFromScreen (bounds_left rc) (bounds_top rc) (bounds_width rc) (bounds_height rc),
         Call_Save (bounds_width rc) (bounds_height rc)]
      else [])"


text \<open>The calls that draw: background capture (\<open>PrintWindow\<close>), foreground capture
  (\<open>CopyFromScreen\<close>) and the saving of the bitmap.\<close>

fun is_drawing :: "os_call \<Rightarrow> bool" where
  "is_drawing (Call_PrintWindow h w ht) = True"
| "is_drawing (Call_CopyFromScreen x y w ht) = True"
| "is_drawing (Call_Save w ht) = True"
| "is_drawing c = False"

text \<open>What a run added to the log.\<close>

definition new_calls :: "desktop \<Rightarrow> desktop \<Rightarrow> os_call list" where
  "new_calls d d' = drop (length (calls d)) (calls d')"

subsection \<open>The selector priority, in the specification's words\<close>

datatype selector = By_handle string | By_number int | By_title string | By_process string

text \<open>
  The selectors a request supplies, in the order handle, enumeration index, title
  substring, process-name substring. A text selector is supplied when the argument is a
  non-empty text; for the handle the text \<open>undefined\<close>, which is how an absent argument
  reads inside the script, counts as absent too. A window number is supplied when the
  argument is present. The honored selector is the first supplied.
\<close>

definition supplied :: "request \<Rightarrow> selector list" where
  "supplied r =
     (case windowHandle r of
        None \<Rightarrow> []
      | Some h \<Rightarrow> if ps_ne h [] \<and> ps_ne h ''undefined'' then [By_handle h] else []) @
     (case windowNumber r of None \<Rightarrow> [] | Some k \<Rightarrow> [By_number k]) @
     (case windowTitle r of None \<Rightarrow> [] | Some t \<Rightarrow> if t = [] then [] else [By_title t]) @
     (case processName r of None \<Rightarrow> [] | Some p \<Rightarrow> if p = [] then [] else [By_process p])"

definition honored :: "request \<Rightarrow> selector option" where
  "honored r = (case supplied r of [] \<Rightarrow> None | s # rest \<Rightarrow> Some s)"

subsection \<open>A desktop and requests to run the handler on\<close>

definition chrome :: top_window where
  "chrome = \<lparr>hWnd = 42, IsWindowVisible = True, WindowText = ''Chrome'', ProcessId = 100,
     ProcessName = Some ''chrome''\<rparr>"

definition editor :: top_window where
  "editor = \<lparr>hWnd = 77, IsWindowVisible = True, WindowText = ''Untitled - Notepad'',
     ProcessId = 200, ProcessName = Some ''notepad''\<rparr>"

definition left_screen :: Screen where
  "left_screen = \<lparr>Bounds = \<lparr>X = 0, Y = 0, Width = 1920, Height = 1080\<rparr>, Primary = True\<rparr>"

definition right_screen :: Screen where
  "right_screen = \<lparr>Bounds = \<lparr>X = 1920, Y = 0, Width = 1280, Height = 1024\<rparr>, Primary = False\<rparr>"

text \<open>Two visible windows, neither minimized: \<open>Chrome\<close> (handle 42, that is
  \<open>0x2A\<close>) at (100, 5)-(900, 650), and after it \<open>Untitled - Notepad\<close> (handle 77) at
  (300, 200)-(700, 500), which has the focus. Two monitors, reported right one first.\<close>

definition desk :: desktop where
  "desk =
     \<lparr>EnumWindows = [chrome, editor],
      minimized = (\<lambda>h. False),
      window_rect =
        (\<lambda>h. if h = 42 then Some \<lparr>Left = 100, Top = 5, Right = 900, Bottom = 650\<rparr>
             else if h = 77 then Some \<lparr>Left = 300, Top = 200, Right = 700, Bottom = 500\<rparr>
             else None),
      foreground = 77,
      PrintWindow_result = (\<lambda>h. True),
      restore_latency = Some 100,
      pending_restore = None,
      obeys_minimize = True,
      obeys_foreground = True,
      AllScreens = [right_screen, left_screen],
      VirtualScreen = \<lparr>X = 0, Y = 0, Width = 3200, Height = 1080\<rparr>,
      mkdir_succeeds = True,
      stderr_noise = [],
      output_file = False,
      calls = []\<rparr>"

definition desk_minimized :: desktop where
  "desk_minimized = desk\<lparr>minimized := (\<lambda>h. h = 42)\<rparr>"

definition desk_black :: desktop where
  "desk_black = desk\<lparr>PrintWindow_result := (\<lambda>h. False)\<rparr>"

definition desk_minimized_black :: desktop where
  "desk_minimized_black = desk\<lparr>minimized := (\<lambda>h. h = 42), PrintWindow_result := (\<lambda>h. False)\<rparr>"

definition desk_readonly :: desktop where
  "desk_readonly = desk\<lparr>mkdir_succeeds := False\<rparr>"

definition desk_swapped :: desktop where
  "desk_swapped = desk\<lparr>AllScreens := [left_screen, right_screen]\<rparr>"

definition upper_screen :: Screen where
  "upper_screen = \<lparr>Bounds = \<lparr>X = 0, Y = 0, Width = 1920, Height = 1080\<rparr>, Primary = True\<rparr>"

definition lower_screen :: Screen where
  "lower_screen = \<lparr>Bounds = \<lparr>X = 0, Y = 1080, Width = 1920, Height = 1200\<rparr>, Primary = False\<rparr>"

text \<open>Two monitors one above the other, with the same horizontal origin, reported in
  either order.\<close>

definition desk_stacked :: desktop where
  "desk_stacked = desk\<lparr>AllScreens := [upper_screen, lower_screen]\<rparr>"

definition desk_stacked_swapped :: desktop where
  "desk_stacked_swapped = desk\<lparr>AllScreens := [lower_screen, upper_screen]\<rparr>"

definition no_args :: request where
  "no_args =
     \<lparr>filename = None, monitor = None, windowTitle = None, processName = None,
      windowNumber = None, windowHandle = None, filter_arg = None, allowFocus = None,
      restoreIfMinimized = None, folder = None\<rparr>"

section \<open>Lemmas\<close>

subsection \<open>What each desktop operation changes\<close>

lemma record_call_frame [simp]:
  "calls (record_call c d) = calls d @ [c]"
  "minimized (record_call c d) = minimized d"
  "foreground (record_call c d) = foreground d"
  "window_rect (record_call c d) = window_rect d"
  "PrintWindow_result (record_call c d) = PrintWindow_result d"
  "restore_latency (record_call c d) = restore_latency d"
  "pending_restore (record_call c d) = pending_restore d"
  "obeys_minimize (record_call c d) = obeys_minimize d"
  "obeys_foreground (record_call c d) = obeys_foreground d"
  "stderr_noise (record_call c d) = stderr_noise d"
  "output_file (record_call c d) = output_file d"
  by (simp_all add: record_call_def)

lemma complete_restore_frame [simp]:
  "calls (complete_restore h d) = calls d"
  "window_rect (complete_restore h d) = window_rect d"
  "PrintWindow_result (complete_restore h d) = PrintWindow_result d"
  "restore_latency (complete_restore h d) = restore_latency d"
  "obeys_minimize (complete_restore h d) = obeys_minimize d"
  "obeys_foreground (complete_restore h d) = obeys_foreground d"
  "stderr_noise (complete_restore h d) = stderr_noise d"
  "output_file (complete_restore h d) = output_file d"
  by (simp_all add: complete_restore_def)

lemma ShowWindowAsync_frame [simp]:
  "calls (ShowWindowAsync h n d) = calls d @ [Call_ShowWindowAsync h n]"
  "window_rect (ShowWindowAsync h n d) = window_rect d"
  "PrintWindow_result (ShowWindowAsync h n d) = PrintWindow_result d"
  "restore_latency (ShowWindowAsync h n d) = restore_latency d"
  "obeys_minimize (ShowWindowAsync h n d) = obeys_minimize d"
  "obeys_foreground (ShowWindowAsync h n d) = obeys_foreground d"
  "stderr_noise (ShowWindowAsync h n d) = stderr_noise d"
  "output_file (ShowWindowAsync h n d) = output_file d"
  by (simp_all add: ShowWindowAsync_def Let_def split: option.splits)

lemma Start_Sleep_frame [simp]:
  "calls (Start_Sleep ms d) = calls d"
  "window_rect (Start_Sleep ms d) = window_rect d"
  "PrintWindow_result (Start_Sleep ms d) = PrintWindow_result d"
  "restore_latency (Start_Sleep ms d) = restore_latency d"
  "obeys_minimize (Start_Sleep ms d) = obeys_minimize d"
  "obeys_foreground (Start_Sleep ms d) = obeys_foreground d"
  "stderr_noise (Start_Sleep ms d) = stderr_noise d"
  "output_file (Start_Sleep ms d) = output_file d"
  by (simp_all add: Start_Sleep_def split: option.splits prod.splits)

lemma SetForegroundWindow_frame [simp]:
  "calls (SetForegroundWindow h d) = calls d @ [Call_SetForegroundWindow h]"
  "minimized (SetForegroundWindow h d) = minimized d"
  "window_rect (SetForegroundWindow h d) = window_rect d"
  "PrintWindow_result (SetForegroundWindow h d) = PrintWindow_result d"
  "restore_latency (SetForegroundWindow h d) = restore_latency d"
  "obeys_minimize (SetForegroundWindow h d) = obeys_minimize d"
  "obeys_foreground (SetForegroundWindow h d) = obeys_foreground d"
  "stderr_noise (SetForegroundWindow h d) = stderr_noise d"
  "output_file (SetForegroundWindow h d) = output_file d"
  by (simp_all add: SetForegroundWindow_def Let_def)

lemma Save_frame [simp]:
  "calls (Save w h d) = calls d @ [Call_Save w h]"
  "minimized (Save w h d) = minimized d"
  "foreground (Save w h d) = foreground d"
  "window_rect (Save w h d) = window_rect d"
  "PrintWindow_result (Save w h d) = PrintWindow_result d"
  "obeys_minimize (Save w h d) = obeys_minimize d"
  "obeys_foreground (Save w h d) = obeys_foreground d"
  "stderr_noise (Save w h d) = stderr_noise d"
  "output_file (Save w h d) = True"
  by (simp_all add: Save_def)

lemma restore_poll_frame [simp]:
  "calls (restore_poll n t d) = calls d"
  "window_rect (restore_poll n t d) = window_rect d"
  "PrintWindow_result (restore_poll n t d) = PrintWindow_result d"
  "obeys_minimize (restore_poll n t d) = obeys_minimize d"
  "obeys_foreground (restore_poll n t d) = obeys_foreground d"
  "stderr_noise (restore_poll n t d) = stderr_noise d"
  "output_file (restore_poll n t d) = output_file d"
  by (induction n arbitrary: d; simp)+

lemma restore_original_frame [simp]:
  "calls (restore_original m p t d) = calls d @ restoration_calls m p t"
  "stderr_noise (restore_original m p t d) = stderr_noise d"
  "output_file (restore_original m p t d) = output_file d"
  by (simp_all add: restore_original_def restoration_calls_def Let_def)

lemma restore_original_minimized:
  "obeys_minimize d \<Longrightarrow> minimized (restore_original True p t d) t"
  by (simp add: restore_original_def Let_def ShowWindowAsync_def SW_MINIMIZE_def SW_RESTORE_def)

lemma restore_original_foreground:
  "obeys_foreground d \<Longrightarrow> p \<noteq> 0 \<Longrightarrow> foreground (restore_original m p t d) = p"
  by (simp add: restore_original_def Let_def SetForegroundWindow_def)

lemma capture_window_calls:
  "calls (snd (capture_window allow restore target d)) =
     calls d @
     (if IsIconic d target \<and> \<not> ps_truthy restore then []
      else
        (if IsIconic d target then [Call_ShowWindowAsync target SW_RESTORE] else []) @
        capture_calls (PrintWindow_result d target) (ps_truthy allow) target (GetWindowRect d target) @
        (if PrintWindow_result d target \<or> ps_truthy allow
         then restoration_calls (IsIconic d target) (foreground d) target else []))"
  by (simp add: capture_window_def Let_def capture_calls_def GetForegroundWindow_def
      GetWindowRect_def)

lemma capture_window_result:
  "fst (capture_window allow restore target d) =
     (if IsIconic d target \<and> \<not> ps_truthy restore then Inl Target_window_is_minimized
      else if PrintWindow_result d target
        then Inr ''Window screenshot saved successfully (background)''
      else if ps_truthy allow
        then Inr ''Window screenshot saved successfully (foreground fallback)''
      else Inl Background_capture_invalid)"
  by (simp add: capture_window_def Let_def)

lemma ps_truthy_psAllowFocus: "ps_truthy (ps_literal (psAllowFocus b))"
  by (simp add: psAllowFocus_def quoted_def ps_literal_def sq_def)

lemma ps_truthy_psRestore: "ps_truthy (ps_literal (psRestore b))"
  by (simp add: psRestore_def quoted_def ps_literal_def sq_def)


subsection \<open>Escaped texts arrive intact\<close>

lemma unescape_other: "a \<noteq> q \<Longrightarrow> unescape q (a # xs) = a # unescape q xs"
  by (cases xs) simp_all

lemma unescape_escaped:
  "unescape sq (concat (map (\<lambda>c. if c = sq then [sq, sq] else [c]) s)) = s"
  by (induction s) (simp_all add: unescape_other)




lemma quoted_not_flag: "quoted body \<noteq> ''$true'' \<and> quoted body \<noteq> ''$false''"
  by (simp add: quoted_def sq_def)

lemma quoted_body: "butlast (tl (quoted body)) = body"
  by (simp add: quoted_def)

lemma ps_literal_escPS:
  "ps_literal (quoted (escPS v)) = PS_String (case v of None \<Rightarrow> [] | Some s \<Rightarrow> s)"
  by (cases v) (simp_all add: ps_literal_def quoted_not_flag quoted_body escPS_def unescape_escaped)

subsection \<open>Numbers as text, read back\<close>
























lemma ToLower_Nil_iff: "ToLower s = [] \<longleftrightarrow> s = []"
  by (simp add: ToLower_def)

subsection \<open>Running the handler on concrete requests\<close>

lemma restore_poll_unfold:
  "restore_poll n target d =
     (if n = 0 then d
      else if \<not> IsIconic d target then d
      else restore_poll (n - 1) target (Start_Sleep 50 d))"
  by (cases n) simp_all

lemmas text_defs =
  ps_ne_def ps_eq_def ToLower_def lower_char_def interp_def interp_num_def
  string_of_nat.simps digit_char_def digit_val_def hex_val_def ps_int_def ps_int32_def ps_int64_def
  Convert_ToInt64_16_def all_digits_def escPS_def quoted_def sq_def dq_def psFilter_def
  psWindowTitle_def psProcessName_def psAllowFocus_def psRestore_def ps_literal_def

lemmas number_defs = js_String_int_def js_String_nat_def

lemmas desktop_defs =
  IsIconic_def GetForegroundWindow_def GetWindowRect_def ShowWindowAsync_def SW_RESTORE_def
  SW_MINIMIZE_def complete_restore_def Start_Sleep_def SetForegroundWindow_def Save_def
  record_call_def restore_poll_unfold restore_original_def bounds_left_def bounds_top_def
  bounds_width_def bounds_height_def pad_def capture_region_def

lemmas script_defs =
  Get_WindowsList_def callback_arr_def list_windows_results_def list_windows_callback_def
  filter_accepts_def by_handle_def by_number_def by_title_def by_process_def
  handle_given_def number_given_def title_given_def process_given_def resolve_target_def
  window_script_parses_def capture_window_def window_script_def all_monitors_script_def
  PrimaryScreen_def monitor_target_def monitor_script_parses_def monitor_script_def

lemmas handler_defs =
  truthy_text_def truthy_num_def or_false_def monitor_or_all_def window_branch_def
  script_args_of_def psScript_def hasRealError_def take_screenshot_def

lemmas example_defs =
  chrome_def editor_def left_screen_def right_screen_def desk_def desk_minimized_def desk_black_def
  desk_minimized_black_def desk_readonly_def desk_swapped_def upper_screen_def lower_screen_def
  desk_stacked_def desk_stacked_swapped_def no_args_def

lemmas run_defs =
  text_defs number_defs desktop_defs script_defs handler_defs example_defs Let_def

subsection \<open>Which branch of the resolution chain runs\<close>

lemma ToLower_Nil [simp]: "ToLower [] = []"
  by (simp add: ToLower_def)

text \<open>An absent selector reads \<open>undefined\<close> in the script: the tests for a handle and
  for a number take it as absent, the tests for a title and for a process name do not.\<close>

lemma absent_selectors:
  "windowHandle r = None \<Longrightarrow> \<not> handle_given (script_args_of r)"
  "windowNumber r = None \<Longrightarrow> \<not> number_given (script_args_of r)"
  "windowTitle r = None \<Longrightarrow> title_given (script_args_of r)"
  "processName r = None \<Longrightarrow> process_given (script_args_of r)"
  by (simp_all add: handle_given_def number_given_def title_given_def process_given_def
      script_args_of_def interp_def interp_num_def ps_ne_def ToLower_def lower_char_def sq_def)

lemma window_script_flags:
  "window_script (script_args_of r) d =
     (if window_script_parses (script_args_of r) then
        (case resolve_target d (script_args_of r) of
           Inl e \<Rightarrow> (Inl e, d)
         | Inr target \<Rightarrow>
             if target = 0 then (Inl No_target_window_resolved, d)
             else capture_window (ps_literal (psAllowFocus (or_false (allowFocus r))))
                    (ps_literal (psRestore (or_false (restoreIfMinimized r)))) target d)
      else (Inl Script_does_not_parse, d))"
  by (simp add: window_script_def script_args_of_def split: sum.split)

text \<open>The list of \<open>Get-WindowsList\<close> is empty on every desktop, so only a handle
  resolves to a window: a request that selects by number, by title or by process name
  ends in an error and draws nothing.\<close>

lemma Get_WindowsList_empty: "Get_WindowsList d flt = []"
  by (simp add: Get_WindowsList_def)

lemma resolve_target_needs_handle:
  assumes "\<not> handle_given a"
  shows "resolve_target d a =
     (if number_given a then Inl (Invalid_windowNumber (unescape dq (raw_windowNumber a)) 0)
      else if title_given a then Inl (No_window_with_title (unescape dq (raw_windowTitle a)))
      else if process_given a then Inl (No_window_for_process (unescape dq (raw_processName a)))
      else Inr 0)"
  using assms
  by (auto simp: resolve_target_def Get_WindowsList_empty by_number_def by_title_def
      by_process_def Let_def split: option.split)

lemma window_script_needs_handle:
  assumes "\<not> handle_given a"
  shows "\<exists>e. window_script a d = (Inl e, d)"
  by (simp add: window_script_def resolve_target_needs_handle [OF assms])

subsection \<open>The capture of a window\<close>

lemma capture_window_success:
  assumes "fst (capture_window allow restore target d) = Inr out"
  shows "\<not> (IsIconic d target \<and> \<not> ps_truthy restore) \<and>
         (PrintWindow_result d target \<or> ps_truthy allow)"
  using assms by (simp add: capture_window_result split: if_splits)

lemma new_calls_append: "calls d' = calls d @ xs \<Longrightarrow> new_calls d d' = xs"
  by (simp add: new_calls_def)

lemma drawing_restoration [simp]: "filter is_drawing (restoration_calls m p t) = []"
  by (simp add: restoration_calls_def)

lemma capture_window_final:
  assumes "fst (capture_window allow restore target d) = Inr out"
  shows "\<exists>dx. snd (capture_window allow restore target d) =
              restore_original (IsIconic d target) (foreground d) target dx \<and>
            obeys_minimize dx = obeys_minimize d \<and> obeys_foreground dx = obeys_foreground d"
  using assms
  by (auto simp: capture_window_def Let_def GetForegroundWindow_def split: if_splits)

lemma capture_window_noise:
  "stderr_noise (snd (capture_window allow restore target d)) = stderr_noise d"
  by (simp add: capture_window_def Let_def)

lemma capture_window_output_file:
  "fst (capture_window allow restore target d) = Inr out \<Longrightarrow>
     output_file (snd (capture_window allow restore target d))"
  by (auto simp: capture_window_def Let_def split: if_splits)

subsection \<open>The monitor script\<close>














subsection \<open>Consequences for single-selector requests and for the guards\<close>

lemma handler_rejects_iff: "fst (take_screenshot r d) = Rejected \<longleftrightarrow> \<not> mkdir_succeeds d"
  by (auto simp: take_screenshot_def split: prod.splits sum.splits)

lemma ps_like_star: "ps_like s ''*''"
  by (induction s) auto

lemma ps_like_star_star: "ps_like s ''**''"
  using ps_like_star [of s] by simp

lemma psWindowTitle_absent: "ps_literal (psWindowTitle None) = PS_String []"
  by (simp add: psWindowTitle_def escPS_def quoted_def ps_literal_def sq_def)

text \<open>A request that names a process and no title: the script compares the text
  \<open>undefined\<close> with the empty text and enters the title branch, where the pattern
  \<open>**\<close> matches every title.\<close>

lemma process_alone_enters_title_branch:
  assumes "windowHandle r = None" and "windowNumber r = None" and "windowTitle r = None"
  shows "resolve_target d (script_args_of r) =
     by_title (Get_WindowsList d (ps_text (ps_literal (psFilter (filter_arg r))))) ''undefined''
       (PS_String [])"
proof -
  have "\<not> handle_given (script_args_of r)" "\<not> number_given (script_args_of r)"
      "title_given (script_args_of r)"
    using assms by (simp_all add: absent_selectors)
  then show ?thesis
    using assms(3)
    by (simp add: resolve_target_def Let_def)
       (simp add: script_args_of_def interp_def psWindowTitle_absent dq_def)
qed

lemma by_title_absent_first:
  "by_title (w # ws) shown (PS_String []) = Inr (Handle w)"
  by (simp add: by_title_def ps_like_star_star del: ps_like.simps)

text \<open>The two guards that read \<open>$psAllowFocus\<close> and \<open>$psRestore\<close> never fire: the
  handler's scripts throw neither "Target window is minimized" nor "Retry with
  allowFocus: true".\<close>

lemma resolve_target_errors:
  "resolve_target d a = Inl e \<Longrightarrow>
     e \<noteq> Target_window_is_minimized \<and> e \<noteq> Background_capture_invalid"
  by (auto simp: resolve_target_def Let_def by_handle_def by_number_def by_title_def
      by_process_def split: if_splits option.splits)

lemma guards_never_fire:
  "fst (powershell (psScript r) d) \<noteq> Inl Target_window_is_minimized \<and>
   fst (powershell (psScript r) d) \<noteq> Inl Background_capture_invalid"
proof (cases "psScript r")
  case (Window_script a)
  then have a: "a = script_args_of r"
    by (simp add: psScript_def split: if_splits)
  show ?thesis
  proof (cases "resolve_target d (script_args_of r)")
    case (Inl e)
    then show ?thesis
      using Window_script a resolve_target_errors [OF Inl]
      by (auto simp: window_script_flags)
  next
    case (Inr target)
    then show ?thesis
      using Window_script a
      by (simp add: window_script_flags capture_window_result ps_truthy_psAllowFocus
          ps_truthy_psRestore)
  qed
next
  case All_monitors_script
  then show ?thesis by (simp add: all_monitors_script_def)
next
  case (Monitor_script m)
  then show ?thesis
    by (auto simp: monitor_script_def monitor_target_def Let_def
        split: sum.splits option.splits if_splits)
qed

section \<open>The claims\<close>

subsection \<open>C1: priority among window selectors\<close>

text \<open>
  Claim C1. A \<open>take_screenshot\<close> request that supplies more than one window selector
  (\<open>windowHandle\<close>, \<open>windowNumber\<close>, \<open>windowTitle\<close>, \<open>processName\<close>) is resolved by
  exactly one of them, the first supplied in the order handle, enumeration index, title
  substring, process-name substring; the other selectors are ignored.

  The tests of lines 301-315 come in the order claimed, but a selector that loses is not
  ignored: its text is written raw into the script (lines 310, 313, 315 and 319). On
  \<open>desk\<close>, a request with the handle \<open>0x2A\<close> and the title \<open>O'Brien\<close> supplies two
  selectors, of which the handle is honored; the quote of the title ends the string of
  line 310 early, the script does not parse, and nothing is captured. The same handle
  with the title \<open>OBrien\<close> captures window 42.
\<close>

theorem C1_losing_selector_not_ignored:
  "supplied (no_args\<lparr>windowHandle := Some ''0x2A'', windowTitle := Some (''O'' @ sq # ''Brien'')\<rparr>) =
     [By_handle ''0x2A'', By_title (''O'' @ sq # ''Brien'')] \<and>
   honored (no_args\<lparr>windowHandle := Some ''0x2A'', windowTitle := Some (''O'' @ sq # ''Brien'')\<rparr>) =
     Some (By_handle ''0x2A'') \<and>
   take_screenshot
     (no_args\<lparr>windowHandle := Some ''0x2A'', windowTitle := Some (''O'' @ sq # ''Brien'')\<rparr>) desk =
     (Returned (Failed (Script_threw Script_does_not_parse)), desk) \<and>
   fst (take_screenshot (no_args\<lparr>windowHandle := Some ''0x2A'', windowTitle := Some ''OBrien''\<rparr>)
     desk) = Returned Saved \<and>
   calls (snd (take_screenshot (no_args\<lparr>windowHandle := Some ''0x2A'', windowTitle := Some ''OBrien''\<rparr>)
     desk)) =
     [Call_PrintWindow 42 820 660, Call_Save 820 660, Call_SetForegroundWindow 77]"
  by (simp add: run_defs supplied_def honored_def)

subsection \<open>C2: a window number alone\<close>

text \<open>
  Claim C2. A request whose only selector is \<open>windowNumber = k\<close> captures the \<open>k\<close>-th
  window (counted from one) of the filtered enumeration when \<open>1 \<le> k \<le> count\<close>, and
  fails with an error that names the range from 1 to \<open>count\<close> when \<open>k = 0\<close> or
  \<open>k > count\<close>.

  On \<open>desk\<close> the enumeration of \<open>list_windows\<close> has two windows. At \<open>k = 0\<close> the
  request never reaches the window script: zero is falsy in the test of line 227, and the
  request is served as a capture of all monitors and answered as saved. At \<open>k = 1\<close> the
  window script runs, but the list of \<open>Get-WindowsList\<close> is empty: the request fails
  with the range error "Available: 1..0" and captures nothing.
\<close>

theorem C2_window_number_alone:
  "length (list_windows_results desk []) = 2 \<and>
   Get_WindowsList desk [] = [] \<and>
   fst (take_screenshot (no_args\<lparr>windowNumber := Some 0\<rparr>) desk) = Returned Saved \<and>
   calls (snd (take_screenshot (no_args\<lparr>windowNumber := Some 0\<rparr>) desk)) =
     [Call_CopyFromScreen 0 0 3200 1080, Call_Save 3200 1080] \<and>
   take_screenshot (no_args\<lparr>windowNumber := Some 1\<rparr>) desk =
     (Returned (Failed (Script_threw (Invalid_windowNumber ''1'' 0))), desk)"
  by (simp add: run_defs)

subsection \<open>C3: background capture first, fallback only when allowed\<close>

text \<open>
  Claim C3. For a resolved window, background capture (\<open>PrintWindow\<close>) is attempted
  first; the foreground fallback runs only if background capture reports failure; and if
  it reports failure while \<open>allowFocus\<close> is false, the request fails at once with an
  error telling the caller to retry with focus allowed, and no foreground capture is
  attempted.

  The last part fails on \<open>desk_black\<close>, where \<open>PrintWindow\<close> reports failure, for a
  request with \<open>allowFocus: false\<close>: the script receives \<open>$psAllowFocus = '$false'\<close>, a
  non-empty string, which counts as true in \<open>if ($psAllowFocus)\<close>. The target is brought
  to the foreground, the screen region is copied and saved, and the request is answered
  as saved.
\<close>

theorem C3_fallback_without_allowFocus:
  "\<not> PrintWindow_result desk_black 42 \<and>
   fst (take_screenshot (no_args\<lparr>windowHandle := Some ''0x2A'', allowFocus := Some False\<rparr>) desk_black) =
     Returned Saved \<and>
   calls (snd (take_screenshot (no_args\<lparr>windowHandle := Some ''0x2A'', allowFocus := Some False\<rparr>)
     desk_black)) =
     [Call_PrintWindow 42 820 660, Call_SetForegroundWindow 42,
      Call_CopyFromScreen 90 0 820 660, Call_Save 820 660, Call_SetForegroundWindow 77]"
  by (simp add: run_defs)

subsection \<open>C4: a minimized window without permission to restore\<close>

text \<open>
  Claim C4. When the resolved window is minimized and \<open>restoreIfMinimized\<close> is false, the
  result is an error saying so, and no capture is attempted, in the background or in the
  foreground.

  On \<open>desk_minimized\<close> with \<open>restoreIfMinimized: false\<close> the script receives
  \<open>$psRestore = '$false'\<close>, a non-empty string: \<open>-not $psRestore\<close> is false and
  \<open>$psRestore -and $wasMinimized\<close> is true. The window is restored, captured in the
  background, minimized again, and the request is answered as saved.
\<close>

theorem C4_minimized_without_restore:
  "IsIconic desk_minimized 42 \<and>
   fst (take_screenshot (no_args\<lparr>windowHandle := Some ''0x2A'', restoreIfMinimized := Some False\<rparr>)
     desk_minimized) = Returned Saved \<and>
   calls (snd (take_screenshot (no_args\<lparr>windowHandle := Some ''0x2A'', restoreIfMinimized := Some False\<rparr>)
     desk_minimized)) =
     [Call_ShowWindowAsync 42 9, Call_PrintWindow 42 820 660, Call_Save 820 660,
      Call_ShowWindowAsync 42 6, Call_SetForegroundWindow 77]"
  by (simp add: run_defs)

subsection \<open>C5: the capture bounds\<close>

text \<open>
  Claim C5. For a window whose reported rectangle is \<open>(L, T, R, B)\<close>, with the fixed
  padding \<open>p\<close>, both capture paths use the origin \<open>(max 0 (L - p), max 0 (T - p))\<close>, the
  width \<open>(R + p) - max 0 (L - p)\<close> and the height \<open>(B + p) - max 0 (T - p)\<close>.

  The padding is 10. In a capture that succeeds, the drawing calls are: on the background
  path, \<open>PrintWindow\<close> into a bitmap of that width and height, then the saving of it; on
  the fallback path, \<open>PrintWindow\<close> into such a bitmap, \<open>CopyFromScreen\<close> from that origin
  with that size, then the saving of a bitmap of that size.
\<close>

theorem C5_capture_bounds:
  assumes "window_rect d target = Some \<lparr>Left = L, Top = T, Right = R, Bottom = B\<rparr>"
      and "capture_window allow restore target d = (Inr out, d')"
  shows "pad = 10 \<and>
     (PrintWindow_result d target \<longrightarrow>
        filter is_drawing (new_calls d d') =
          [Call_PrintWindow target ((R + pad) - max 0 (L - pad)) ((B + pad) - max 0 (T - pad)),
           Call_Save ((R + pad) - max 0 (L - pad)) ((B + pad) - max 0 (T - pad))]) \<and>
     (\<not> PrintWindow_result d target \<longrightarrow>
        filter is_drawing (new_calls d d') =
          [Call_PrintWindow target ((R + pad) - max 0 (L - pad)) ((B + pad) - max 0 (T - pad)),
           Call_CopyFromScreen (max 0 (L - pad)) (max 0 (T - pad))
             ((R + pad) - max 0 (L - pad)) ((B + pad) - max 0 (T - pad)),
           Call_Save ((R + pad) - max 0 (L - pad)) ((B + pad) - max 0 (T - pad))])"
proof -
  have ok: "\<not> (IsIconic d target \<and> \<not> ps_truthy restore)"
      "PrintWindow_result d target \<or> ps_truthy allow"
    using capture_window_success [of allow restore target d out] assms(2) by simp_all
  have rc: "GetWindowRect d target = \<lparr>Left = L, Top = T, Right = R, Bottom = B\<rparr>"
    using assms(1) by (simp add: GetWindowRect_def)
  have "calls d' = calls d @
      ((if IsIconic d target then [Call_ShowWindowAsync target SW_RESTORE] else []) @
       capture_calls (PrintWindow_result d target) (ps_truthy allow) target
         \<lparr>Left = L, Top = T, Right = R, Bottom = B\<rparr> @
       restoration_calls (IsIconic d target) (foreground d) target)"
    using capture_window_calls [of allow restore target d] assms(2) ok rc by auto
  then have "new_calls d d' =
      (if IsIconic d target then [Call_ShowWindowAsync target SW_RESTORE] else []) @
       capture_calls (PrintWindow_result d target) (ps_truthy allow) target
         \<lparr>Left = L, Top = T, Right = R, Bottom = B\<rparr> @
       restoration_calls (IsIconic d target) (foreground d) target"
    by (rule new_calls_append)
  then show ?thesis
    using ok
    by (auto simp: capture_calls_def bounds_left_def bounds_top_def bounds_width_def
        bounds_height_def pad_def)
qed

text \<open>C5 on \<open>desk_black\<close>, window 42 at (100, 5)-(900, 650), focus allowed: the
  fallback copies 820 by 660 pixels from (90, 0).\<close>

theorem C5_capture_bounds_witness:
  "window_rect desk_black 42 = Some \<lparr>Left = 100, Top = 5, Right = 900, Bottom = 650\<rparr> \<and>
   fst (capture_window (ps_literal (psAllowFocus True)) (ps_literal (psRestore False)) 42 desk_black) =
     Inr ''Window screenshot saved successfully (foreground fallback)'' \<and>
   filter is_drawing (new_calls desk_black
     (snd (capture_window (ps_literal (psAllowFocus True)) (ps_literal (psRestore False)) 42
        desk_black))) =
     [Call_PrintWindow 42 820 660, Call_CopyFromScreen 90 0 820 660, Call_Save 820 660]"
  using C5_capture_bounds [of desk_black 42 100 5 900 650
      "ps_literal (psAllowFocus True)" "ps_literal (psRestore False)"
      "''Window screenshot saved successfully (foreground fallback)''"
      "snd (capture_window (ps_literal (psAllowFocus True)) (ps_literal (psRestore False)) 42
        desk_black)"]
  by (simp add: run_defs new_calls_def)

subsection \<open>C6: restoring the minimized state and the focus\<close>

text \<open>
  Claim C6. When the resolved window was minimized and \<open>restoreIfMinimized\<close> is true,
  and a capture path succeeds, the window is minimized again after the capture, and the
  focus goes back to the window that had it before, if that is another window than the
  target; these steps are best effort and never revert a successful capture.

  The last calls of the request are the minimize request for the target and, if a
  window had the focus, the focus request for it. If the window manager obeys, the target
  ends minimized and the focus ends where it was. Whether it obeys or not, the answer is
  the one the capture earned: saved, unless the error stream of the script is judged a
  real error.
\<close>

theorem C6_restoration_after_capture:
  assumes "mkdir_succeeds d"
      and "window_branch r"
      and "resolve_target d (script_args_of r) = Inr target"
      and "target \<noteq> 0"
      and "IsIconic d target"
      and "restoreIfMinimized r = Some True"
      and "fst (powershell (psScript r) d) = Inr out"
  shows "(\<exists>before. new_calls d (snd (take_screenshot r d)) =
            before @ [Call_ShowWindowAsync target SW_MINIMIZE] @
            (if foreground d \<noteq> 0 then [Call_SetForegroundWindow (foreground d)] else [])) \<and>
         (obeys_minimize d \<longrightarrow> IsIconic (snd (take_screenshot r d)) target) \<and>
         (obeys_foreground d \<and> foreground d \<noteq> 0 \<longrightarrow>
            GetForegroundWindow (snd (take_screenshot r d)) = foreground d) \<and>
         fst (take_screenshot r d) =
           (if hasRealError (stderr_noise d)
            then Returned (Failed (Error_stream (stderr_noise d)))
            else Returned Saved)"
proof -
  define allow where "allow = ps_literal (psAllowFocus (or_false (allowFocus r)))"
  define restore where "restore = ps_literal (psRestore (or_false (restoreIfMinimized r)))"
  define run where "run = capture_window allow restore target d"
  have "window_script_parses (script_args_of r)"
    using assms(2,7) by (simp add: psScript_def window_script_def split: if_splits)
  then have script: "powershell (psScript r) d = run"
    using assms(2,3,4)
    by (simp add: psScript_def window_script_flags run_def allow_def restore_def)
  then have ok: "fst (capture_window allow restore target d) = Inr out"
    using assms(7) by (simp add: run_def)
  obtain b where b: "run = (Inr out, b)"
    using ok by (cases run) (simp add: run_def)
  have noise: "stderr_noise b = stderr_noise d"
    using capture_window_noise [of allow restore target d] b by (simp add: run_def)
  have saved: "output_file b"
    using capture_window_output_file [OF ok] b by (simp add: run_def)
  have result: "take_screenshot r d =
      ((if hasRealError (stderr_noise d) then Returned (Failed (Error_stream (stderr_noise d)))
        else Returned Saved), snd run)"
    using assms(1) script b noise saved
    by (simp add: take_screenshot_def)
  obtain dx where dx: "snd run = restore_original True (foreground d) target dx"
      "obeys_minimize dx = obeys_minimize d" "obeys_foreground dx = obeys_foreground d"
    using capture_window_final [OF ok] assms(5) by (auto simp: run_def)
  have succ: "\<not> (IsIconic d target \<and> \<not> ps_truthy restore)"
      "PrintWindow_result d target \<or> ps_truthy allow"
    using capture_window_success [OF ok] by simp_all
  have "calls (snd run) = calls d @
      (([Call_ShowWindowAsync target SW_RESTORE] @
        capture_calls (PrintWindow_result d target) (ps_truthy allow) target
          (GetWindowRect d target)) @
       [Call_ShowWindowAsync target SW_MINIMIZE] @
       (if foreground d \<noteq> 0 then [Call_SetForegroundWindow (foreground d)] else []))"
    using capture_window_calls [of allow restore target d] succ assms(5)
    by (auto simp: run_def restoration_calls_def)
  then have "new_calls d (snd run) =
      ([Call_ShowWindowAsync target SW_RESTORE] @
        capture_calls (PrintWindow_result d target) (ps_truthy allow) target
          (GetWindowRect d target)) @
       [Call_ShowWindowAsync target SW_MINIMIZE] @
       (if foreground d \<noteq> 0 then [Call_SetForegroundWindow (foreground d)] else [])"
    by (rule new_calls_append)
  then have log: "\<exists>before. new_calls d (snd run) =
      before @ [Call_ShowWindowAsync target SW_MINIMIZE] @
      (if foreground d \<noteq> 0 then [Call_SetForegroundWindow (foreground d)] else [])"
    by blast
  have min: "obeys_minimize d \<longrightarrow> IsIconic (snd run) target"
    using dx restore_original_minimized [of dx "foreground d" target]
    by (simp add: IsIconic_def)
  have fg: "obeys_foreground d \<and> foreground d \<noteq> 0 \<longrightarrow>
      GetForegroundWindow (snd run) = foreground d"
    using dx restore_original_foreground [of dx "foreground d" True target]
    by (simp add: GetForegroundWindow_def)
  show ?thesis
    using result log min fg by simp
qed

text \<open>C6 on \<open>desk_minimized\<close>: window 42 ends minimized, the focus is back on window
  77, and the request is answered as saved.\<close>

theorem C6_restoration_witness:
  "IsIconic desk_minimized 42 \<and>
   restoreIfMinimized (no_args\<lparr>windowHandle := Some ''0x2A'', restoreIfMinimized := Some True\<rparr>) =
     Some True \<and>
   fst (powershell (psScript (no_args\<lparr>windowHandle := Some ''0x2A'', restoreIfMinimized := Some True\<rparr>))
     desk_minimized) = Inr ''Window screenshot saved successfully (background)'' \<and>
   IsIconic (snd (take_screenshot (no_args\<lparr>windowHandle := Some ''0x2A'', restoreIfMinimized := Some True\<rparr>)
     desk_minimized)) 42 \<and>
   GetForegroundWindow
     (snd (take_screenshot (no_args\<lparr>windowHandle := Some ''0x2A'', restoreIfMinimized := Some True\<rparr>)
        desk_minimized)) = 77 \<and>
   fst (take_screenshot (no_args\<lparr>windowHandle := Some ''0x2A'', restoreIfMinimized := Some True\<rparr>)
     desk_minimized) = Returned Saved"
proof -
  let ?r = "no_args\<lparr>windowHandle := Some ''0x2A'', restoreIfMinimized := Some True\<rparr>"
  have p1: "mkdir_succeeds desk_minimized"
    by (simp add: example_defs)
  have p2: "window_branch ?r"
    by (simp add: window_branch_def truthy_text_def no_args_def)
  have p3: "resolve_target desk_minimized (script_args_of ?r) = Inr 42"
    by (simp add: run_defs)
  have p4: "(42::int) \<noteq> 0"
    by simp
  have p5: "IsIconic desk_minimized 42"
    by (simp add: IsIconic_def example_defs)
  have p6: "restoreIfMinimized ?r = Some True"
    by simp
  have p7: "fst (powershell (psScript ?r) desk_minimized) =
      Inr ''Window screenshot saved successfully (background)''"
    by (simp add: run_defs)
  have env: "obeys_minimize desk_minimized" "obeys_foreground desk_minimized"
      "foreground desk_minimized = 77" "\<not> hasRealError (stderr_noise desk_minimized)"
    by (simp_all add: example_defs hasRealError_def)
  from C6_restoration_after_capture [OF p1 p2 p3 p4 p5 p6 p7] env
  have "IsIconic (snd (take_screenshot ?r desk_minimized)) 42"
    and "GetForegroundWindow (snd (take_screenshot ?r desk_minimized)) = 77"
    and "fst (take_screenshot ?r desk_minimized) = Returned Saved"
    by simp_all
  with p5 p6 p7 show ?thesis by simp
qed

subsection \<open>C7: the process-name selector\<close>

text \<open>
  Claim C7. For a \<open>processName\<close> selector \<open>s\<close>, a trailing \<open>.exe\<close> is stripped from
  \<open>s\<close>, and the first enumerated window whose process name contains the stripped text,
  ignoring case, is selected; if no window matches, the request fails with an error that
  says so.

  On \<open>desk\<close> the windows are those of \<open>chrome\<close>, handle 42, and of \<open>notepad\<close>, handle
  77, so the claim selects window 77 for \<open>processName: "notepad"\<close>. The request fails
  instead, and with an error about a title: with no title in the request, line 310
  compares the text \<open>undefined\<close> with the empty text and enters the title branch, where
  the list of \<open>Get-WindowsList\<close> is empty. With an empty title beside the process name
  the process branch runs, on the same empty list, and the request fails with "No window
  found for process: notepad".
\<close>

theorem C7_process_selector_alone:
  "map Process (list_windows_results desk []) = [''chrome'', ''notepad''] \<and>
   map Handle (list_windows_results desk []) = [42, 77] \<and>
   take_screenshot (no_args\<lparr>processName := Some ''notepad''\<rparr>) desk =
     (Returned (Failed (Script_threw (No_window_with_title ''undefined''))), desk) \<and>
   take_screenshot (no_args\<lparr>windowTitle := Some [], processName := Some ''notepad''\<rparr>) desk =
     (Returned (Failed (Script_threw (No_window_for_process ''notepad''))), desk)"
  by (simp add: run_defs)

subsection \<open>C8: monitor resolution\<close>




subsection \<open>C9: failures at the request boundary\<close>

text \<open>
  Claim C9. Every failure of a \<open>take_screenshot\<close> request, the failure to create the
  destination directory and the absence of the output file included, is caught in the
  handler and turned into an error payload with the failure flag set; none leaves the
  handler as an uncaught exception.

  The directory is created on line 222, before the \<open>try\<close> of line 224 opens. On
  \<open>desk_readonly\<close>, where the directory cannot be created, the handler's promise rejects
  and no payload is returned.
\<close>

theorem C9_mkdir_failure_rejects:
  "\<not> mkdir_succeeds desk_readonly \<and> fst (take_screenshot no_args desk_readonly) = Rejected"
  by (simp add: run_defs)

subsection \<open>C10: the error path after a restore\<close>

text \<open>
  Claim C10. If a minimized window has been restored (\<open>restoreIfMinimized\<close> true) and
  background capture then reports failure while \<open>allowFocus\<close> is false, the request
  fails, the window stays restored and the focus is not given back: the steps of lines
  376-378 are skipped on this path.

  On \<open>desk_minimized_black\<close> this path is not taken. \<open>$psAllowFocus\<close> is the non-empty
  string \<open>'$false'\<close> and counts as true, so the fallback runs: the request is answered
  as saved, the window is minimized again and the focus is back on window 77.
\<close>

theorem C10_error_path_not_taken:
  "IsIconic desk_minimized_black 42 \<and>
   \<not> PrintWindow_result desk_minimized_black 42 \<and>
   fst (take_screenshot
     (no_args\<lparr>windowHandle := Some ''0x2A'', allowFocus := Some False,
        restoreIfMinimized := Some True\<rparr>)
     desk_minimized_black) = Returned Saved \<and>
   calls (snd (take_screenshot
     (no_args\<lparr>windowHandle := Some ''0x2A'', allowFocus := Some False,
        restoreIfMinimized := Some True\<rparr>)
     desk_minimized_black)) =
     [Call_ShowWindowAsync 42 9, Call_PrintWindow 42 820 660, Call_SetForegroundWindow 42,
      Call_CopyFromScreen 90 0 820 660, Call_Save 820 660,
      Call_ShowWindowAsync 42 6, Call_SetForegroundWindow 77] \<and>
   IsIconic (snd (take_screenshot
     (no_args\<lparr>windowHandle := Some ''0x2A'', allowFocus := Some False,
        restoreIfMinimized := Some True\<rparr>)
     desk_minimized_black)) 42 \<and>
   GetForegroundWindow (snd (take_screenshot
     (no_args\<lparr>windowHandle := Some ''0x2A'', allowFocus := Some False,
        restoreIfMinimized := Some True\<rparr>)
     desk_minimized_black)) = 77"
  by (simp add: run_defs)

end
